theory Spec2Isabelle
  imports Complex_Main "HOL-Library.Finite_Map"
begin

section \<open>JavaScript values\<close>

text \<open>
  The tool-response handlers work on the result of \<^verbatim>\<open>JSON.parse\<close>, which TypeScript
  types as \<^verbatim>\<open>any\<close>: the code looks at truthiness, at \<^verbatim>\<open>typeof\<close> and at
  properties that may be absent. The values are therefore modelled dynamically. An object
  is a finite map from property names to values, so that equality of two values is the deep
  comparison of \<^verbatim>\<open>lodash.isequal\<close> (arrays by position, objects by their keys,
  whatever the order the keys were written in). Numbers are reals: the handlers only pass
  them on and compare a length with zero.
\<close>

datatype jsval =
    Undefined
  | Null
  | Bool bool
  | Num real
  | Str string
  | Arr "jsval list"
  | Obj "(string, jsval) fmap"

datatype error = TypeError | SyntaxError | HttpError nat | Rejected

text \<open>
  What the handlers take from the JavaScript runtime and the clock. \<open>JSON_parse\<close> is
  \<^verbatim>\<open>JSON.parse\<close> (\<open>None\<close> when it throws), \<open>ToNumber\<close> and \<open>ToString\<close> are the
  conversions of the language for the values whose conversion the model does not compute
  itself (strings, arrays and objects to numbers, \<open>None\<close> being \<^verbatim>\<open>NaN\<close>; non-strings to
  strings), \<open>Date_now\<close> is the value of \<^verbatim>\<open>new Date()\<close>.
\<close>

record js_env =
  JSON_parse :: "string \<Rightarrow> jsval option"
  ToNumber :: "jsval \<Rightarrow> real option"
  ToString :: "jsval \<Rightarrow> string"
  Date_now :: nat

text \<open>\<^verbatim>\<open>if (v)\<close>: the falsy values are undefined, null, false, 0 and the empty string.\<close>

fun truthy :: "jsval \<Rightarrow> bool" where
  "truthy Undefined = False"
| "truthy Null = False"
| "truthy (Bool b) = b"
| "truthy (Num r) = (r \<noteq> 0)"
| "truthy (Str s) = (s \<noteq> [])"
| "truthy (Arr xs) = True"
| "truthy (Obj m) = True"

text \<open>\<^verbatim>\<open>typeof v === "string"\<close>.\<close>

fun is_string :: "jsval \<Rightarrow> bool" where
  "is_string (Str s) = True"
| "is_string v = False"

fun is_primitive :: "jsval \<Rightarrow> bool" where
  "is_primitive (Arr xs) = False"
| "is_primitive (Obj m) = False"
| "is_primitive v = True"

text \<open>
  \<^verbatim>\<open>a === b\<close> for two values that come from different places (a value held in the state
  and a value of the payload just parsed): primitives are compared by value, an array or an
  object is only identical to itself, so never to the other one.
\<close>

definition strict_eq :: "jsval \<Rightarrow> jsval \<Rightarrow> bool" where
  "strict_eq a b = (is_primitive a \<and> a = b)"

text \<open>\<^verbatim>\<open>xs.includes(v)\<close>, for \<open>v\<close> fresh from the payload.\<close>

definition js_includes :: "jsval list \<Rightarrow> jsval \<Rightarrow> bool" where
  "js_includes xs v = list_ex (\<lambda>x. strict_eq x v) xs"

text \<open>
  \<^verbatim>\<open>v.k\<close>: reading a property of undefined or null throws a TypeError, an absent
  property is undefined. Arrays and strings have their \<^verbatim>\<open>length\<close>; none of the other
  names the handlers read is inherited from a prototype.
\<close>

fun get_prop :: "jsval \<Rightarrow> string \<Rightarrow> error + jsval" where
  "get_prop Undefined k = Inl TypeError"
| "get_prop Null k = Inl TypeError"
| "get_prop (Bool b) k = Inr Undefined"
| "get_prop (Num r) k = Inr Undefined"
| "get_prop (Str s) k = Inr (if k = ''length'' then Num (real (length s)) else Undefined)"
| "get_prop (Arr xs) k = Inr (if k = ''length'' then Num (real (length xs)) else Undefined)"
| "get_prop (Obj m) k = Inr (case fmlookup m k of None \<Rightarrow> Undefined | Some v \<Rightarrow> v)"

text \<open>\<^verbatim>\<open>v[0]\<close>.\<close>

fun get_first :: "jsval \<Rightarrow> error + jsval" where
  "get_first Undefined = Inl TypeError"
| "get_first Null = Inl TypeError"
| "get_first (Bool b) = Inr Undefined"
| "get_first (Num r) = Inr Undefined"
| "get_first (Str s) = Inr (case s of [] \<Rightarrow> Undefined | c # cs \<Rightarrow> Str [c])"
| "get_first (Arr xs) = Inr (case xs of [] \<Rightarrow> Undefined | x # ys \<Rightarrow> x)"
| "get_first (Obj m) = Inr (case fmlookup m ''0'' of None \<Rightarrow> Undefined | Some v \<Rightarrow> v)"

text \<open>The number a value is compared as, then \<^verbatim>\<open>v > 0\<close> (false for \<^verbatim>\<open>NaN\<close>).\<close>

fun to_number :: "js_env \<Rightarrow> jsval \<Rightarrow> real option" where
  "to_number env Undefined = None"
| "to_number env Null = Some 0"
| "to_number env (Bool b) = Some (if b then 1 else 0)"
| "to_number env (Num r) = Some r"
| "to_number env v = ToNumber env v"

definition js_gt_zero :: "js_env \<Rightarrow> jsval \<Rightarrow> bool" where
  "js_gt_zero env v = (case to_number env v of None \<Rightarrow> False | Some r \<Rightarrow> 0 < r)"

text \<open>A value inside a template literal.\<close>

fun to_string :: "js_env \<Rightarrow> jsval \<Rightarrow> string" where
  "to_string env (Str s) = s"
| "to_string env v = ToString env v"

text \<open>\<^verbatim>\<open>s.startsWith(p)\<close>.\<close>

fun startsWith :: "string \<Rightarrow> string \<Rightarrow> bool" where
  "startsWith s [] = True"
| "startsWith [] (p # ps) = False"
| "startsWith (c # cs) (p # ps) = (c = p \<and> startsWith cs ps)"


section \<open>Pricing (utils/pricing.ts)\<close>

text \<open>\<^verbatim>\<open>number | null | undefined\<close>, the type of the parameter \<^verbatim>\<open>salePrice\<close>.\<close>

datatype 'a nullable = IsUndefined | IsNull | Value 'a

text \<open>\<^verbatim>\<open>v != null\<close>: the loose comparison is false for null and for undefined.\<close>

fun not_nullish :: "'a nullable \<Rightarrow> bool" where
  "not_nullish (Value v) = True"
| "not_nullish n = False"

record PricingInfo =
  currentPrice :: real
  hasDiscount :: bool
  originalPrice :: "real option"

definition calculatePricing :: "real \<Rightarrow> real nullable \<Rightarrow> bool \<Rightarrow> PricingInfo" where
  "calculatePricing price salePrice onSale =
     (let discount = (onSale \<and> not_nullish salePrice);
          current = (case (discount, salePrice) of (True, Value v) \<Rightarrow> v | other \<Rightarrow> price)
      in \<lparr> currentPrice = current,
           hasDiscount = discount,
           originalPrice = (if discount then Some price else None) \<rparr>)"


section \<open>The state of the client\<close>

text \<open>
  The state held by the hooks \<^verbatim>\<open>useProductManagement\<close>, \<^verbatim>\<open>useShoppingFeatures\<close>,
  \<^verbatim>\<open>useVirtualTryOn\<close> and by \<^verbatim>\<open>App\<close> (the active contact), with what was written to
  the console. The listings, the highlighted id and the cart hold whatever the payload
  carried: nothing checks them against their declared types. The favourites only ever
  receive values that passed \<^verbatim>\<open>typeof ... === "string"\<close>.
\<close>

datatype log_entry = Log string "jsval list"

record tryon_result =
  imageUrl :: jsval
  timestamp :: nat

record contact =
  contact_listingId :: jsval
  contact_email :: jsval
  contact_timestamp :: nat
  contact_initialMessage :: jsval

record app_state =
  listings :: jsval
  highlightedListingId :: jsval
  favorites :: "string list"
  cartItems :: "jsval list"
  page :: string
  showTryOnModal :: bool
  tryOnProduct :: jsval
  isGeneratingTryOn :: bool
  tryOnResult :: "tryon_result option"
  activeContact :: "contact option"
  console :: "log_entry list"

definition initial_state :: app_state where
  "initial_state =
     \<lparr> listings = Arr [], highlightedListingId = Null, favorites = [], cartItems = [],
       page = ''main'', showTryOnModal = False, tryOnProduct = Null,
       isGeneratingTryOn = False, tryOnResult = None, activeContact = None, console = [] \<rparr>"

text \<open>
  A handler either returns or throws, and the state updates it made before throwing stay
  made. A handler is a function of the state it updates; it also reads the values its
  closure captured at the last render, which are passed separately (\<open>c\<close> below).
\<close>

datatype outcome = Returned | Threw error

type_synonym 's action = "'s \<Rightarrow> outcome \<times> 's"

type_synonym handler = "app_state action"

definition returns :: "'s action" where
  "returns s = (Returned, s)"

definition throws :: "error \<Rightarrow> 's action" where
  "throws e s = (Threw e, s)"

text \<open>\<^verbatim>\<open>p; q\<close>: \<open>q\<close> runs when \<open>p\<close> has returned.\<close>

definition and_then :: "'s action \<Rightarrow> 's action \<Rightarrow> 's action" where
  "and_then p q s = (case p s of (Returned, s') \<Rightarrow> q s' | (Threw e, s') \<Rightarrow> (Threw e, s'))"

text \<open>\<^verbatim>\<open>try { p } catch (e) { h }\<close> and \<^verbatim>\<open>try { p } finally { q }\<close>.\<close>

definition catching :: "'s action \<Rightarrow> (error \<Rightarrow> 's action) \<Rightarrow> 's action" where
  "catching p h s = (case p s of (Returned, s') \<Rightarrow> (Returned, s') | (Threw e, s') \<Rightarrow> h e s')"

definition finally_do :: "'s action \<Rightarrow> 's action \<Rightarrow> 's action" where
  "finally_do p q s =
     (case p s of
        (Returned, s') \<Rightarrow> q s'
      | (Threw e, s') \<Rightarrow> (case q s' of (Returned, s'') \<Rightarrow> (Threw e, s'') | r \<Rightarrow> r))"

text \<open>An expression that may throw, then the rest with its value.\<close>

definition reading :: "error + 'a \<Rightarrow> ('a \<Rightarrow> 's action) \<Rightarrow> 's action" where
  "reading r f s = (case r of Inl e \<Rightarrow> (Threw e, s) | Inr v \<Rightarrow> f v s)"

definition console_log :: "string \<Rightarrow> jsval list \<Rightarrow> handler" where
  "console_log label args s = (Returned, s\<lparr>console := console s @ [Log label args]\<rparr>)"


section \<open>useProductManagement\<close>

text \<open>
  \<^verbatim>\<open>updateListings\<close>, exported as \<^verbatim>\<open>setListings\<close>. The comparison reads the listings
  of the last render. The new listings are stored before the first element is looked at,
  so they stay stored when \<^verbatim>\<open>newListings[0].id\<close> throws.
\<close>

definition updateListings :: "js_env \<Rightarrow> app_state \<Rightarrow> jsval \<Rightarrow> handler" where
  "updateListings env c newListings =
     (if listings c \<noteq> newListings then
        and_then (\<lambda>s. (Returned, s\<lparr>listings := newListings\<rparr>))
          (reading (get_prop newListings ''length'') (\<lambda>len.
             if js_gt_zero env len then
               reading (get_first newListings) (\<lambda>first.
                 reading (get_prop first ''id'') (\<lambda>i s.
                   (Returned, s\<lparr>highlightedListingId := i\<rparr>)))
             else (\<lambda>s. (Returned, s\<lparr>highlightedListingId := Null\<rparr>))))
      else returns)"

text \<open>\<^verbatim>\<open>highlightProduct\<close>, exported as \<^verbatim>\<open>setHighlightedListingId\<close>.\<close>

definition highlightProduct :: "jsval \<Rightarrow> handler" where
  "highlightProduct productId =
     and_then (console_log ''HIGHLIGHTING PRODUCT:'' [productId])
       (\<lambda>s. (Returned, s\<lparr>highlightedListingId := productId\<rparr>))"


section \<open>useShoppingFeatures\<close>

text \<open>
  \<^verbatim>\<open>handleAddToCart\<close> tests the cart of the last render and appends to the current one.
\<close>

definition handleAddToCart :: "app_state \<Rightarrow> jsval \<Rightarrow> handler" where
  "handleAddToCart c listingId =
     (if \<not> js_includes (cartItems c) listingId then
        and_then (\<lambda>s. (Returned, s\<lparr>cartItems := cartItems s @ [listingId]\<rparr>))
          (console_log ''Added to cart:'' [listingId])
      else returns)"

text \<open>The function \<^verbatim>\<open>toggleFavorite\<close> passes to \<^verbatim>\<open>setFavorites\<close>.\<close>

definition toggle :: "string \<Rightarrow> string list \<Rightarrow> string list" where
  "toggle listingId prev =
     (if listingId \<in> set prev then filter (\<lambda>item. item \<noteq> listingId) prev
      else prev @ [listingId])"

definition toggleFavorite :: "string \<Rightarrow> handler" where
  "toggleFavorite listingId s =
     (Returned,
      s\<lparr>favorites := toggle listingId (favorites s),
        console := console s @
          [Log (if listingId \<in> set (favorites s) then ''Removed from favorites:''
                else ''Added to favorites:'') [Str listingId]]\<rparr>)"

definition navigateTo :: "string \<Rightarrow> handler" where
  "navigateTo destination =
     and_then (\<lambda>s. (Returned, s\<lparr>page := destination\<rparr>))
       (console_log ''Navigated to:'' [Str destination])"


section \<open>useVirtualTryOn\<close>

text \<open>\<^verbatim>\<open>listings.find(l => l.id === productId)\<close>; only an array has \<^verbatim>\<open>find\<close>.\<close>

fun find_by_id :: "jsval list \<Rightarrow> jsval \<Rightarrow> error + jsval" where
  "find_by_id [] productId = Inr Undefined"
| "find_by_id (l # ls) productId =
     (case get_prop l ''id'' of
        Inl e \<Rightarrow> Inl e
      | Inr i \<Rightarrow> if strict_eq i productId then Inr l else find_by_id ls productId)"

fun js_find :: "jsval \<Rightarrow> jsval \<Rightarrow> error + jsval" where
  "js_find (Arr ls) productId = find_by_id ls productId"
| "js_find v productId = Inl TypeError"

definition open_modal :: "jsval \<Rightarrow> handler" where
  "open_modal product s =
     (Returned, s\<lparr>tryOnProduct := product, showTryOnModal := True, tryOnResult := None\<rparr>)"

definition handleTryOnRequest :: "jsval \<Rightarrow> jsval \<Rightarrow> handler" where
  "handleTryOnRequest productId ls =
     and_then (console_log ''VIRTUAL TRY-ON REQUEST:'' [productId])
       (reading (js_find ls productId) (\<lambda>product.
          if truthy product then open_modal product else returns))"

definition handleVoiceTryOnModal :: "jsval \<Rightarrow> jsval \<Rightarrow> handler" where
  "handleVoiceTryOnModal productId ls =
     and_then (console_log ''VOICE TRY-ON: Opening modal for product'' [productId])
       (reading (js_find ls productId) (\<lambda>product.
          if truthy product then
            and_then (open_modal product)
              (console_log ''Try-on modal opened for voice request'' [])
          else returns))"

definition handleTryOnResult :: "js_env \<Rightarrow> jsval \<Rightarrow> handler" where
  "handleTryOnResult env result =
     and_then (console_log ''VIRTUAL TRY-ON RESULT:'' [result])
       (and_then (\<lambda>s. (Returned, s\<lparr>isGeneratingTryOn := False\<rparr>))
          (reading (get_prop result ''image_url'') (\<lambda>url.
             if truthy url then
               (\<lambda>s. (Returned,
                  s\<lparr>tryOnResult := Some \<lparr>imageUrl = url, timestamp = Date_now env\<rparr>\<rparr>))
             else returns)))"

definition handleTryOnError :: "jsval \<Rightarrow> handler" where
  "handleTryOnError errorMessage =
     and_then (console_log ''VIRTUAL TRY-ON ERROR:'' [errorMessage])
       (\<lambda>s. (Returned, s\<lparr>isGeneratingTryOn := False\<rparr>))"


section \<open>useToolResponseHandler\<close>

text \<open>A frame \<^verbatim>\<open>extension.middle_tier_tool.response\<close>.\<close>

record tool_response =
  previous_item_id :: string
  tool_name :: string
  tool_result :: string

text \<open>The \<^verbatim>\<open>switch (result.action)\<close> of \<^verbatim>\<open>handleToolResponse\<close>.\<close>

definition handleAction :: "js_env \<Rightarrow> app_state \<Rightarrow> jsval \<Rightarrow> handler" where
  "handleAction env c result =
     reading (get_prop result ''action'') (\<lambda>action.
       if action = Str ''update_preferences'' then
         reading (get_prop result ''preferences'') (\<lambda>p.
           console_log ''Preferences updated:'' [p])
       else if action = Str ''send_message'' then
         reading (get_prop result ''listing_id'') (\<lambda>l.
         reading (get_prop result ''contact'') (\<lambda>e.
         reading (get_prop result ''message'') (\<lambda>m.
           and_then
             (\<lambda>s. (Returned,
                s\<lparr>activeContact := Some \<lparr>contact_listingId = l, contact_email = e,
                      contact_timestamp = Date_now env, contact_initialMessage = m\<rparr>\<rparr>))
             (navigateTo ''messages''))))
       else if action = Str ''add_to_cart'' then
         reading (get_prop result ''product_id'') (\<lambda>p.
           and_then (console_log ''CART ACTION: Adding to cart'' [p])
             (handleAddToCart c p))
       else if action = Str ''virtual_try_on_request'' then
         reading (get_prop result ''product_id'') (\<lambda>p.
           handleTryOnRequest p (listings c))
       else if action = Str ''open_virtual_try_on_modal'' then
         reading (get_prop result ''product_id'') (\<lambda>p.
           handleVoiceTryOnModal p (listings c))
       else if action = Str ''virtual_try_on_result'' then
         handleTryOnResult env result
       else if action = Str ''virtual_try_on_error'' then
         reading (get_prop result ''error'') (\<lambda>e. handleTryOnError e)
       else console_log ''Unknown tool response action:'' [action])"

text \<open>The two tests after the \<^verbatim>\<open>switch\<close>: navigation, then favourites.\<close>

definition handleNavigation :: "jsval \<Rightarrow> handler" where
  "handleNavigation result =
     reading (get_prop result ''navigate_to'') (\<lambda>n.
       case n of Str destination \<Rightarrow> navigateTo destination | other \<Rightarrow> returns)"

definition handleFavorites :: "jsval \<Rightarrow> handler" where
  "handleFavorites result =
     reading (get_prop result ''favorite_id'') (\<lambda>f.
       case f of
         Str listingId \<Rightarrow>
           and_then (console_log ''FAVORITES ACTION: Toggling favorite for'' [Str listingId])
             (toggleFavorite listingId)
       | other \<Rightarrow> returns)"

text \<open>\<^verbatim>\<open>handleToolResponse\<close> from the line after \<^verbatim>\<open>JSON.parse\<close> on.\<close>

definition handleParsedResult :: "js_env \<Rightarrow> app_state \<Rightarrow> jsval \<Rightarrow> handler" where
  "handleParsedResult env c result =
     and_then (console_log ''PARSED RESULT:'' [result])
       (reading (get_prop result ''products'') (\<lambda>products.
          if truthy products then updateListings env c products
          else
            reading (get_prop result ''id'') (\<lambda>i.
              if is_string i then highlightProduct i
              else
                and_then (handleAction env c result)
                  (and_then (handleNavigation result) (handleFavorites result)))))"

definition handleToolResponse :: "js_env \<Rightarrow> app_state \<Rightarrow> tool_response \<Rightarrow> handler" where
  "handleToolResponse env c message =
     and_then (console_log ''TOOL RESPONSE:'' [Str (tool_name message)])
       (case JSON_parse env (tool_result message) of
          None \<Rightarrow> throws SyntaxError
        | Some result \<Rightarrow> handleParsedResult env c result)"

text \<open>
  \<^verbatim>\<open>onReceivedExtensionMiddleTierToolResponse\<close> of \<^verbatim>\<open>useVoiceInterface\<close>, with
  \<^verbatim>\<open>handleToolResponse\<close> as its \<^verbatim>\<open>onToolResponse\<close> (the wiring of \<^verbatim>\<open>App\<close>). The
  frame is handled by the handlers of some render: \<open>c\<close> is the state that render saw,
  \<open>s\<close> the state the frame finds. They are the same when the render is current, and differ
  when an update has been made that no render has shown yet.
\<close>

definition onReceivedExtensionMiddleTierToolResponse ::
  "js_env \<Rightarrow> app_state \<Rightarrow> tool_response \<Rightarrow> handler" where
  "onReceivedExtensionMiddleTierToolResponse env c message =
     and_then (console_log ''Voice: Tool response received:'' [Str (tool_name message)])
       (handleToolResponse env c message)"


section \<open>The handler of App.tsx\<close>

text \<open>
  \<^verbatim>\<open>App.tsx\<close> holds the same state in one component and handles a tool response by one
  chain of \<^verbatim>\<open>else if\<close>: at most one branch runs. The properties the conditions of
  the chain test are read first here: a read of \<open>result\<close> throws exactly when \<open>result\<close> is
  null, whatever the property, and the first condition reads one.
\<close>

definition App_setFavorites :: "string \<Rightarrow> handler" where
  "App_setFavorites favorite_id s =
     (Returned,
      s\<lparr>favorites := toggle favorite_id (favorites s),
        console := console s @
          [Log (if favorite_id \<in> set (favorites s) then ''FAVORITES: Removing from favorites''
                else ''FAVORITES: Adding to favorites'') []]\<rparr>)"

definition App_handleAddToCart :: "app_state \<Rightarrow> jsval \<Rightarrow> handler" where
  "App_handleAddToCart c listingId =
     (if \<not> js_includes (cartItems c) listingId then
        (\<lambda>s. (Returned, s\<lparr>cartItems := cartItems s @ [listingId]\<rparr>))
      else returns)"

definition App_handleParsedResult :: "js_env \<Rightarrow> app_state \<Rightarrow> jsval \<Rightarrow> handler" where
  "App_handleParsedResult env c result =
     and_then (console_log ''PARSED RESULT:'' [result])
    (reading (get_prop result ''action'') (\<lambda>action.
     reading (get_prop result ''products'') (\<lambda>products.
     reading (get_prop result ''id'') (\<lambda>i.
     reading (get_prop result ''favorite_id'') (\<lambda>f.
     reading (get_prop result ''navigate_to'') (\<lambda>n.
       if action = Str ''update_preferences'' then
         reading (get_prop result ''preferences'') (\<lambda>p.
           console_log ''Preferences updated:'' [p])
       else if truthy products then updateListings env c products
       else if action = Str ''send_message'' then
         reading (get_prop result ''listing_id'') (\<lambda>l.
         reading (get_prop result ''contact'') (\<lambda>e.
         reading (get_prop result ''message'') (\<lambda>m s.
           (Returned,
            s\<lparr>activeContact := Some \<lparr>contact_listingId = l, contact_email = e,
                  contact_timestamp = Date_now env, contact_initialMessage = m\<rparr>,
              page := ''messages''\<rparr>))))
       else if is_string i then highlightProduct i
       else if is_string f then
         and_then (console_log ''FAVORITES ACTION: Toggling favorite for'' [f])
           (case f of Str favorite_id \<Rightarrow> App_setFavorites favorite_id | other \<Rightarrow> returns)
       else if action = Str ''add_to_cart'' then
         reading (get_prop result ''product_id'') (\<lambda>p.
           and_then (console_log ''CART ACTION: Adding to cart'' [p])
             (App_handleAddToCart c p))
       else if is_string n then
         (case n of Str destination \<Rightarrow> (\<lambda>s. (Returned, s\<lparr>page := destination\<rparr>))
          | other \<Rightarrow> returns)
       else if action = Str ''virtual_try_on_request'' then
         and_then (console_log ''VIRTUAL TRY-ON REQUEST:'' [result])
           (reading (get_prop result ''product_id'') (\<lambda>p.
            reading (js_find (listings c) p) (\<lambda>product.
              if truthy product then open_modal product else returns)))
       else if action = Str ''virtual_try_on_result'' then
         handleTryOnResult env result
       else if action = Str ''virtual_try_on_error'' then
         reading (get_prop result ''error'') (\<lambda>e. handleTryOnError e)
       else returns))))))"

definition App_onReceivedExtensionMiddleTierToolResponse ::
  "js_env \<Rightarrow> app_state \<Rightarrow> tool_response \<Rightarrow> handler" where
  "App_onReceivedExtensionMiddleTierToolResponse env c message =
     and_then (console_log ''TOOL RESPONSE:'' [Str (tool_name message)])
       (case JSON_parse env (tool_result message) of
          None \<Rightarrow> throws SyntaxError
        | Some result \<Rightarrow> App_handleParsedResult env c result)"


section \<open>Generating a try-on (handleGenerateTryOn)\<close>

text \<open>
  What \<^verbatim>\<open>fetch\<close> gave: the promise rejected, or a response with its status and the
  value of \<^verbatim>\<open>response.json()\<close> (\<open>None\<close> when that promise rejects). \<^verbatim>\<open>response.ok\<close> is
  a status from 200 to 299.
\<close>

record http_response =
  status :: nat
  json_body :: "jsval option"

datatype fetch_result = FetchRejected | Fetched http_response

definition response_ok :: "http_response \<Rightarrow> bool" where
  "response_ok r = (200 \<le> status r \<and> status r \<le> 299)"

definition setTryOnResult :: "js_env \<Rightarrow> jsval \<Rightarrow> handler" where
  "setTryOnResult env url s =
     (Returned, s\<lparr>tryOnResult := Some \<lparr>imageUrl = url, timestamp = Date_now env\<rparr>\<rparr>)"

text \<open>
  \<^verbatim>\<open>result.image_url.startsWith('http') ? result.image_url : `http://localhost:8765${...}`\<close>:
  only a string has \<^verbatim>\<open>startsWith\<close>.
\<close>

fun full_image_url :: "jsval \<Rightarrow> error + jsval" where
  "full_image_url (Str u) =
     Inr (Str (if startsWith u ''http'' then u else ''http://localhost:8765'' @ u))"
| "full_image_url v = Inl TypeError"

text \<open>The inner \<^verbatim>\<open>try\<close> block of \<^verbatim>\<open>useVirtualTryOn\<close>: the direct call of the backend.\<close>

definition direct_call :: "js_env \<Rightarrow> fetch_result \<Rightarrow> handler" where
  "direct_call env fetched =
     and_then (console_log ''Calling backend URL:'' [Str ''http://localhost:8765/api/virtual-tryon''])
       (case fetched of
          FetchRejected \<Rightarrow> throws Rejected
        | Fetched response \<Rightarrow>
            if response_ok response then
              (case json_body response of
                 None \<Rightarrow> throws Rejected
               | Some result \<Rightarrow>
                   and_then (console_log ''Backend response:'' [result])
                     (reading (get_prop result ''tryon_image'') (\<lambda>img.
                        if truthy img then
                          and_then
                            (console_log ''Generated virtual try-on image (base64)'' [])
                            (setTryOnResult env
                               (Str (''data:image/png;base64,'' @ to_string env img)))
                        else
                          reading (get_prop result ''image_url'') (\<lambda>u.
                            if truthy u then
                              reading (full_image_url u) (\<lambda>full.
                                and_then (console_log ''Generated image URL:'' [full])
                                  (setTryOnResult env full))
                            else console_log ''No image data in response'' []))))
            else
              and_then
                (console_log ''Backend API not available, status:''
                   [Num (real (status response))])
                (throws (HttpError (status response))))"

text \<open>
  The \<^verbatim>\<open>catch (fetchError)\<close> block: after three seconds the result is set to a
  placeholder image.
\<close>

definition simulation :: "js_env \<Rightarrow> handler" where
  "simulation env =
     and_then (console_log ''Direct API call failed, falling back to simulation:'' [])
       (and_then (console_log ''Simulated backend call with data'' [])
          (and_then (setTryOnResult env (Str ''/api/placeholder/400/600''))
             (console_log ''Virtual try-on simulation completed'' [])))"

text \<open>
  The state once the promise of \<^verbatim>\<open>handleGenerateTryOn\<close> has settled;
  \<^verbatim>\<open>isGeneratingTryOn\<close> is true in between.
\<close>

definition handleGenerateTryOn :: "js_env \<Rightarrow> fetch_result \<Rightarrow> string \<Rightarrow> string \<Rightarrow> handler" where
  "handleGenerateTryOn env fetched productId personImageBase64 =
     and_then (console_log ''GENERATING VIRTUAL TRY-ON:'' [Str productId])
    (and_then (console_log ''Person image size:'' [Num (real (length personImageBase64))])
    (and_then (\<lambda>s. (Returned, s\<lparr>isGeneratingTryOn := True\<rparr>))
       (finally_do
          (catching
             (and_then (console_log ''Request details:'' [Str productId])
                (catching (direct_call env fetched) (\<lambda>fetchError. simulation env)))
             (\<lambda>e. console_log ''Virtual try-on failed:'' []))
          (\<lambda>s. (Returned, s\<lparr>isGeneratingTryOn := False\<rparr>)))))"

text \<open>The same in \<^verbatim>\<open>App.tsx\<close>, whose direct call knows \<^verbatim>\<open>image_url\<close> only.\<close>

definition App_direct_call :: "js_env \<Rightarrow> fetch_result \<Rightarrow> handler" where
  "App_direct_call env fetched =
     and_then (console_log ''Calling backend URL:'' [Str ''http://localhost:8765/api/virtual-tryon''])
       (case fetched of
          FetchRejected \<Rightarrow> throws Rejected
        | Fetched response \<Rightarrow>
            if response_ok response then
              (case json_body response of
                 None \<Rightarrow> throws Rejected
               | Some result \<Rightarrow>
                   and_then (console_log ''Backend response:'' [result])
                     (reading (get_prop result ''image_url'') (\<lambda>u.
                        if truthy u then
                          reading (full_image_url u) (\<lambda>full.
                            and_then (console_log ''Generated image URL:'' [full])
                              (setTryOnResult env full))
                        else console_log ''No image URL in response'' [])))
            else
              and_then
                (console_log ''Backend API not available, status:''
                   [Num (real (status response))])
                (throws (HttpError (status response))))"

definition App_handleGenerateTryOn ::
  "js_env \<Rightarrow> fetch_result \<Rightarrow> string \<Rightarrow> string \<Rightarrow> handler" where
  "App_handleGenerateTryOn env fetched productId personImageBase64 =
     and_then (console_log ''GENERATING VIRTUAL TRY-ON:'' [Str productId])
    (and_then (console_log ''Person image size:'' [Num (real (length personImageBase64))])
    (and_then (\<lambda>s. (Returned, s\<lparr>isGeneratingTryOn := True\<rparr>))
       (finally_do
          (catching
             (and_then (console_log ''Sending virtual try-on request to backend...'' [])
             (and_then (console_log ''Request details:'' [Str productId])
                (catching (App_direct_call env fetched) (\<lambda>fetchError. simulation env))))
             (\<lambda>e. console_log ''Virtual try-on failed:'' []))
          (\<lambda>s. (Returned, s\<lparr>isGeneratingTryOn := False\<rparr>)))))"


section \<open>useVoiceInterface\<close>

text \<open>
  The hooks \<^verbatim>\<open>useRealtime\<close>, \<^verbatim>\<open>useAudioRecorder\<close> and \<^verbatim>\<open>useAudioPlayer\<close> are used
  through the functions they return. A call of one of them is recorded, in the order the
  calls are made; what a call does inside its hook is not part of the voice interface. A
  call may throw (or its promise reject): \<open>faults\<close> says, from the calls made so far,
  whether the next one does.
\<close>

datatype call =
    StartSession
  | AddUserAudio string
  | InputAudioBufferClear
  | StartAudioRecording
  | StopAudioRecording
  | ResetAudioPlayer
  | PlayAudio string
  | StopAudioPlayer

type_synonym faults = "call list \<Rightarrow> call \<Rightarrow> bool"

record voice_state =
  isRecording :: bool
  issued :: "call list"

definition perform :: "faults \<Rightarrow> call \<Rightarrow> voice_state action" where
  "perform fl k s =
     (if fl (issued s) k then Threw Rejected else Returned, s\<lparr>issued := issued s @ [k]\<rparr>)"

definition setIsRecording :: "bool \<Rightarrow> voice_state action" where
  "setIsRecording b s = (Returned, s\<lparr>isRecording := b\<rparr>)"

text \<open>\<^verbatim>\<open>isRecording\<close> is the value of the last render, taken to be the current one.\<close>

definition onReceivedResponseAudioDelta :: "faults \<Rightarrow> string \<Rightarrow> voice_state action" where
  "onReceivedResponseAudioDelta fl delta s =
     (if isRecording s then perform fl (PlayAudio delta) s else (Returned, s))"

definition onReceivedInputAudioBufferSpeechStarted :: "faults \<Rightarrow> voice_state action" where
  "onReceivedInputAudioBufferSpeechStarted fl = perform fl StopAudioPlayer"

text \<open>\<^verbatim>\<open>onAudioRecorded: addUserAudio\<close>.\<close>

definition onAudioRecorded :: "faults \<Rightarrow> string \<Rightarrow> voice_state action" where
  "onAudioRecorded fl audio = perform fl (AddUserAudio audio)"

definition stop_session :: "faults \<Rightarrow> voice_state action" where
  "stop_session fl =
     and_then (perform fl StopAudioRecording)
       (and_then (perform fl StopAudioPlayer) (perform fl InputAudioBufferClear))"

definition start_session :: "faults \<Rightarrow> voice_state action" where
  "start_session fl =
     and_then (perform fl StartSession)
       (and_then (perform fl StartAudioRecording) (perform fl ResetAudioPlayer))"

text \<open>\<^verbatim>\<open>onToggleListening\<close> of \<^verbatim>\<open>useVoiceInterface\<close>, with its \<^verbatim>\<open>catch\<close> and cleanup.\<close>

definition onToggleListening :: "faults \<Rightarrow> voice_state action" where
  "onToggleListening fl s =
     catching
       (if \<not> isRecording s then and_then (start_session fl) (setIsRecording True)
        else and_then (stop_session fl) (setIsRecording False))
       (\<lambda>e. and_then (setIsRecording False)
               (catching (stop_session fl) (\<lambda>cleanupError. returns))) s"

text \<open>\<^verbatim>\<open>onToggleListening\<close> of \<^verbatim>\<open>App.tsx\<close>, which catches nothing.\<close>

definition App_onToggleListening :: "faults \<Rightarrow> voice_state action" where
  "App_onToggleListening fl s =
     (if \<not> isRecording s then and_then (start_session fl) (setIsRecording True)
      else and_then (stop_session fl) (setIsRecording False)) s"

text \<open>
  What reaches the voice interface: a click on the microphone button, a chunk from the
  recorder, and the two upstream frames it reacts to. An exception leaves the handler it
  was thrown in; the next event is handled all the same.
\<close>

datatype event =
    ToggleListening
  | AudioRecorded string
  | ResponseAudioDelta string
  | InputAudioBufferSpeechStarted

fun on_event :: "faults \<Rightarrow> event \<Rightarrow> voice_state action" where
  "on_event fl ToggleListening = onToggleListening fl"
| "on_event fl (AudioRecorded audio) = onAudioRecorded fl audio"
| "on_event fl (ResponseAudioDelta delta) = onReceivedResponseAudioDelta fl delta"
| "on_event fl InputAudioBufferSpeechStarted = onReceivedInputAudioBufferSpeechStarted fl"

fun App_on_event :: "faults \<Rightarrow> event \<Rightarrow> voice_state action" where
  "App_on_event fl ToggleListening = App_onToggleListening fl"
| "App_on_event fl e = on_event fl e"

fun run :: "(event \<Rightarrow> voice_state action) \<Rightarrow> event list \<Rightarrow> voice_state \<Rightarrow> voice_state" where
  "run h [] s = s"
| "run h (e # es) s = run h es (snd (h e s))"


fun is_upstream :: "call \<Rightarrow> bool" where
  "is_upstream StartSession = True"
| "is_upstream (AddUserAudio a) = True"
| "is_upstream InputAudioBufferClear = True"
| "is_upstream k = False"

definition upstream :: "call list \<Rightarrow> call list" where
  "upstream ks = filter is_upstream ks"

definition no_faults :: faults where
  "no_faults h k = False"


section \<open>What the properties speak of\<close>

text \<open>The audio chunks a run of events recorded, in order.\<close>

fun recorded :: "event list \<Rightarrow> string list" where
  "recorded [] = []"
| "recorded (AudioRecorded a # es) = a # recorded es"
| "recorded (e # es) = recorded es"

text \<open>The labels of the \<^verbatim>\<open>switch\<close> of \<^verbatim>\<open>handleToolResponse\<close>.\<close>

definition recognized_actions :: "jsval list" where
  "recognized_actions =
     [Str ''update_preferences'', Str ''send_message'', Str ''add_to_cart'',
      Str ''virtual_try_on_request'', Str ''open_virtual_try_on_modal'',
      Str ''virtual_try_on_result'', Str ''virtual_try_on_error'']"

text \<open>The state without what was written to the console.\<close>

definition quiet :: "app_state \<Rightarrow> app_state" where
  "quiet s = s\<lparr>console := []\<rparr>"

text \<open>
  The direct call of the backend fails: the request is rejected, the status is not a
  success, or the body of the response cannot be read.
\<close>

fun call_failed :: "fetch_result \<Rightarrow> bool" where
  "call_failed FetchRejected = True"
| "call_failed (Fetched response) = (\<not> response_ok response \<or> json_body response = None)"

text \<open>
  Concrete inputs: an environment in which one text parses to one value, a frame carrying
  that text, and some payloads.
\<close>

definition env_parsing :: "string \<Rightarrow> jsval \<Rightarrow> js_env" where
  "env_parsing text r =
     \<lparr> JSON_parse = (\<lambda>t. if t = text then Some r else None),
       ToNumber = (\<lambda>v. None), ToString = (\<lambda>v. []), Date_now = 0 \<rparr>"

definition frame_with :: "string \<Rightarrow> string \<Rightarrow> tool_response" where
  "frame_with name text =
     \<lparr> previous_item_id = ''item_1'', tool_name = name, tool_result = text \<rparr>"



definition null_products_payload :: jsval where
  "null_products_payload =
     Obj (fmap_of_list [(''products'', Null), (''favorite_id'', Str ''CLO001'')])"

definition unknown_payload :: jsval where
  "unknown_payload = Obj (fmap_of_list [(''action'', Str ''dance''), (''id'', Num 7)])"

definition wishlist_payload :: jsval where
  "wishlist_payload = Obj (fmap_of_list [(''favorite_id'', Str ''CLO001'')])"

definition cart_payload :: jsval where
  "cart_payload =
     Obj (fmap_of_list [(''action'', Str ''add_to_cart''), (''product_id'', Str ''CLO002'')])"

definition recording :: voice_state where
  "recording = \<lparr> isRecording = True, issued = [StartSession, StartAudioRecording, ResetAudioPlayer] \<rparr>"

definition idle :: voice_state where
  "idle = \<lparr> isRecording = False, issued = [] \<rparr>"



section \<open>Pricing\<close>

text \<open>
  C8. For all inputs, \<^verbatim>\<open>calculatePricing\<close> has a discount exactly when the item is on sale
  and the sale price is neither null nor undefined; the current price is the sale price in
  that case and the price otherwise; the original price is the price when there is a
  discount and undefined otherwise.
\<close>

theorem calculatePricing_cases:
  "hasDiscount (calculatePricing price salePrice onSale)
     = (onSale \<and> salePrice \<noteq> IsNull \<and> salePrice \<noteq> IsUndefined)
   \<and> currentPrice (calculatePricing price salePrice onSale)
     = (case salePrice of Value v \<Rightarrow> if onSale then v else price | other \<Rightarrow> price)
   \<and> originalPrice (calculatePricing price salePrice onSale)
     = (if hasDiscount (calculatePricing price salePrice onSale) then Some price else None)"
  by (cases salePrice) (simp_all add: calculatePricing_def)


section \<open>Favourites\<close>

lemma toggle_absent: "i \<notin> set fav \<Longrightarrow> toggle i fav = fav @ [i]"
  by (simp add: toggle_def)

lemma toggle_present: "i \<in> set fav \<Longrightarrow> toggle i fav = filter (\<lambda>x. x \<noteq> i) fav"
  by (simp add: toggle_def)

lemma toggle_twice_absent: "i \<notin> set fav \<Longrightarrow> toggle i (toggle i fav) = fav"
  by (auto simp: toggle_def filter_id_conv)

lemma toggle_twice_present:
  "i \<in> set fav \<Longrightarrow> toggle i (toggle i fav) = filter (\<lambda>x. x \<noteq> i) fav @ [i]"
  by (simp add: toggle_def)

lemma set_toggle:
  "set (toggle i fav) = (if i \<in> set fav then set fav - {i} else insert i (set fav))"
  by (auto simp: toggle_def)

lemma others_toggle: "filter (\<lambda>x. x \<noteq> i) (toggle i fav) = filter (\<lambda>x. x \<noteq> i) fav"
  by (simp add: toggle_def)

text \<open>
  C10, as stated, fails: toggling twice an id that is in the list does not give the list
  back, the id has moved to the end. Toggling \<open>a\<close> twice in \<open>[a, b]\<close> gives \<open>[b, a]\<close>.
\<close>

theorem toggleFavorite_twice_counterexample:
  "favorites (snd (toggleFavorite ''a'' (snd (toggleFavorite ''a''
      (initial_state\<lparr>favorites := [''a'', ''b'']\<rparr>)))))
   \<noteq> favorites (initial_state\<lparr>favorites := [''a'', ''b'']\<rparr>)"
  by (simp add: toggleFavorite_def toggle_def)

text \<open>
  C10, amended. For every listing id and every favourites list, toggling twice gives a list
  with the same members as the original: the original list itself when the id was absent,
  and the original without the id, followed by the id, when it was present. One toggle
  appends the id when it is absent and removes it when it is present, and leaves the other
  entries as they were, in their order. The favourites branch of \<^verbatim>\<open>App.tsx\<close> gives the
  same list.
\<close>

theorem toggleFavorite_membership:
  "set (favorites (snd (toggleFavorite i (snd (toggleFavorite i s))))) = set (favorites s)
   \<and> (i \<notin> set (favorites s) \<longrightarrow>
          favorites (snd (toggleFavorite i s)) = favorites s @ [i]
        \<and> favorites (snd (toggleFavorite i (snd (toggleFavorite i s)))) = favorites s)
   \<and> (i \<in> set (favorites s) \<longrightarrow>
          favorites (snd (toggleFavorite i s)) = filter (\<lambda>x. x \<noteq> i) (favorites s)
        \<and> favorites (snd (toggleFavorite i (snd (toggleFavorite i s))))
            = filter (\<lambda>x. x \<noteq> i) (favorites s) @ [i])
   \<and> filter (\<lambda>x. x \<noteq> i) (favorites (snd (toggleFavorite i s)))
        = filter (\<lambda>x. x \<noteq> i) (favorites s)
   \<and> favorites (snd (App_setFavorites i s)) = favorites (snd (toggleFavorite i s))"
proof -
  have one: "favorites (snd (toggleFavorite i s)) = toggle i (favorites s)"
    by (simp add: toggleFavorite_def)
  have two: "favorites (snd (toggleFavorite i (snd (toggleFavorite i s))))
               = toggle i (toggle i (favorites s))"
    by (simp add: toggleFavorite_def)
  have app: "favorites (snd (App_setFavorites i s)) = toggle i (favorites s)"
    by (simp add: App_setFavorites_def)
  have members: "set (toggle i (toggle i (favorites s))) = set (favorites s)"
    by (auto simp: set_toggle)
  show ?thesis
    unfolding one two app
    using members toggle_absent [of i "favorites s"] toggle_present [of i "favorites s"]
      toggle_twice_absent [of i "favorites s"] toggle_twice_present [of i "favorites s"]
      others_toggle [of i "favorites s"]
    by blast
qed

theorem toggleFavorite_membership_witness:
  "''b'' \<notin> set (favorites (initial_state\<lparr>favorites := [''a'']\<rparr>))
   \<and> favorites (snd (toggleFavorite ''b'' (initial_state\<lparr>favorites := [''a'']\<rparr>))) = [''a'', ''b'']
   \<and> ''a'' \<in> set (favorites (initial_state\<lparr>favorites := [''a'']\<rparr>))
   \<and> favorites (snd (toggleFavorite ''a'' (initial_state\<lparr>favorites := [''a'']\<rparr>))) = []"
  using toggleFavorite_membership [of "''b''" "initial_state\<lparr>favorites := [''a'']\<rparr>"]
        toggleFavorite_membership [of "''a''" "initial_state\<lparr>favorites := [''a'']\<rparr>"]
  by (simp add: initial_state_def)


section \<open>The voice interface\<close>

lemma perform_issued [simp]: "issued (snd (perform fl k s)) = issued s @ [k]"
  by (simp add: perform_def)

lemma perform_isRecording [simp]: "isRecording (snd (perform fl k s)) = isRecording s"
  by (simp add: perform_def)

lemma upstream_append [simp]: "upstream (xs @ ys) = upstream xs @ upstream ys"
  by (simp add: upstream_def)

lemma clear_is_upstream:
  "(InputAudioBufferClear \<in> set ks) = (InputAudioBufferClear \<in> set (upstream ks))"
  by (simp add: upstream_def)

lemma recorded_Cons: "recorded (e # es) = recorded [e] @ recorded es"
  by (cases e) simp_all

text \<open>
  An event other than a click on the button leaves \<^verbatim>\<open>isRecording\<close> alone, and calls
  \<^verbatim>\<open>addUserAudio\<close> with the chunk it recorded, if it is one, and nothing else of
  \<^verbatim>\<open>useRealtime\<close>.
\<close>

lemma on_event_no_toggle:
  "e \<noteq> ToggleListening \<Longrightarrow>
     isRecording (snd (on_event fl e s)) = isRecording s
   \<and> upstream (issued (snd (on_event fl e s)))
       = upstream (issued s) @ map AddUserAudio (recorded [e])"
  by (cases e)
     (simp_all add: onAudioRecorded_def onReceivedResponseAudioDelta_def
        onReceivedInputAudioBufferSpeechStarted_def upstream_def)

lemma App_on_event_no_toggle: "e \<noteq> ToggleListening \<Longrightarrow> App_on_event fl e = on_event fl e"
  by (cases e) simp_all

lemma run_no_toggle:
  "ToggleListening \<notin> set es \<Longrightarrow>
     isRecording (run (on_event fl) es s) = isRecording s
   \<and> upstream (issued (run (on_event fl) es s))
       = upstream (issued s) @ map AddUserAudio (recorded es)"
proof (induction es arbitrary: s)
  case Nil
  then show ?case by simp
next
  case (Cons e es)
  then have e: "e \<noteq> ToggleListening" and es: "ToggleListening \<notin> set es" by auto
  show ?case
    using Cons.IH [OF es, of "snd (on_event fl e s)"] on_event_no_toggle [OF e, of fl s]
      recorded_Cons [of e es]
    by simp
qed

lemma App_run_no_toggle:
  "ToggleListening \<notin> set es \<Longrightarrow> run (App_on_event fl) es s = run (on_event fl) es s"
  by (induction es arbitrary: s) (auto simp: App_on_event_no_toggle)



text \<open>The state \<open>recording\<close> is the one a click reaches from rest.\<close>

lemma toggle_on:
  "onToggleListening no_faults idle = (Returned, recording)
   \<and> App_onToggleListening no_faults idle = (Returned, recording)"
  by (simp add: onToggleListening_def App_onToggleListening_def start_session_def
        and_then_def catching_def perform_def setIsRecording_def no_faults_def recording_def
        idle_def)




text \<open>
  C2, as stated, fails: after a speech-started event the next recorded chunk goes upstream
  with no \<^verbatim>\<open>input_audio_buffer.clear\<close> before it. The event only stops the player.
\<close>

theorem speech_started_no_clear_counterexample:
  "upstream (issued (run (on_event no_faults)
      [InputAudioBufferSpeechStarted, AudioRecorded ''chunk''] recording))
     = [StartSession, AddUserAudio ''chunk'']
   \<and> upstream (issued (run (App_on_event no_faults)
      [InputAudioBufferSpeechStarted, AudioRecorded ''chunk''] recording))
     = [StartSession, AddUserAudio ''chunk'']"
  by (simp add: onAudioRecorded_def onReceivedInputAudioBufferSpeechStarted_def upstream_def
        perform_def no_faults_def recording_def)

text \<open>
  C2, amended. For every session and every run of events that holds no click on the
  microphone button, whatever speech-started events it holds, the calls made to send
  upstream are one \<^verbatim>\<open>addUserAudio\<close> for each recorded chunk, in order, and nothing else:
  no \<^verbatim>\<open>inputAudioBufferClear\<close> is called in such a run, so none follows a speech-started
  event. This holds for \<^verbatim>\<open>useVoiceInterface\<close> and for \<^verbatim>\<open>App.tsx\<close>.
\<close>

theorem clear_only_on_toggle:
  "ToggleListening \<notin> set es \<Longrightarrow>
     upstream (issued (run (on_event fl) es s))
       = upstream (issued s) @ map AddUserAudio (recorded es)
   \<and> upstream (issued (run (App_on_event fl) es s))
       = upstream (issued s) @ map AddUserAudio (recorded es)
   \<and> (InputAudioBufferClear \<in> set (issued (run (on_event fl) es s)))
       = (InputAudioBufferClear \<in> set (issued s))
   \<and> (InputAudioBufferClear \<in> set (issued (run (App_on_event fl) es s)))
       = (InputAudioBufferClear \<in> set (issued s))"
proof -
  assume no_click: "ToggleListening \<notin> set es"
  have up: "upstream (issued (run (on_event fl) es s))
      = upstream (issued s) @ map AddUserAudio (recorded es)"
    using run_no_toggle [OF no_click, of fl s] by simp
  have same: "run (App_on_event fl) es s = run (on_event fl) es s"
    using App_run_no_toggle [OF no_click] .
  have "(InputAudioBufferClear \<in> set (upstream (issued (run (on_event fl) es s))))
      = (InputAudioBufferClear \<in> set (upstream (issued s)))"
    unfolding up by auto
  then have clear: "(InputAudioBufferClear \<in> set (issued (run (on_event fl) es s)))
      = (InputAudioBufferClear \<in> set (issued s))"
    using clear_is_upstream [of "issued (run (on_event fl) es s)"]
      clear_is_upstream [of "issued s"] by simp
  show ?thesis
    using up clear by (simp add: same)
qed

theorem clear_only_on_toggle_witness:
  "ToggleListening \<notin> set [AudioRecorded ''a'', InputAudioBufferSpeechStarted, AudioRecorded ''b'']
   \<and> upstream (issued (run (on_event no_faults)
        [AudioRecorded ''a'', InputAudioBufferSpeechStarted, AudioRecorded ''b''] recording))
      = [StartSession, AddUserAudio ''a'', AddUserAudio ''b'']
   \<and> InputAudioBufferClear \<notin> set (issued (run (on_event no_faults)
        [AudioRecorded ''a'', InputAudioBufferSpeechStarted, AudioRecorded ''b''] recording))"
  using clear_only_on_toggle
    [of "[AudioRecorded ''a'', InputAudioBufferSpeechStarted, AudioRecorded ''b'']"
      no_faults recording]
  by (simp add: upstream_def recording_def)





section \<open>Tool responses\<close>

lemma and_then_returned: "fst (p s) = Returned \<Longrightarrow> and_then p q s = q (snd (p s))"
  by (cases "p s") (simp add: and_then_def)

text \<open>What a frame whose text parses comes down to.\<close>

lemma onReceived_parsed:
  "JSON_parse env (tool_result m) = Some r \<Longrightarrow>
   onReceivedExtensionMiddleTierToolResponse env c m s
     = handleParsedResult env c r
         (s\<lparr>console := console s @
              [Log ''Voice: Tool response received:'' [Str (tool_name m)],
               Log ''TOOL RESPONSE:'' [Str (tool_name m)]]\<rparr>)"
  by (simp add: onReceivedExtensionMiddleTierToolResponse_def handleToolResponse_def
        and_then_def console_log_def)

lemma App_onReceived_parsed:
  "JSON_parse env (tool_result m) = Some r \<Longrightarrow>
   App_onReceivedExtensionMiddleTierToolResponse env c m s
     = App_handleParsedResult env c r
         (s\<lparr>console := console s @ [Log ''TOOL RESPONSE:'' [Str (tool_name m)]]\<rparr>)"
  by (simp add: App_onReceivedExtensionMiddleTierToolResponse_def
        and_then_def console_log_def)

text \<open>\<^verbatim>\<open>updateListings\<close> touches the listings and the highlighted id only.\<close>

lemma updateListings_frame:
  "favorites (snd (updateListings env c n s)) = favorites s
 \<and> cartItems (snd (updateListings env c n s)) = cartItems s
 \<and> page (snd (updateListings env c n s)) = page s
 \<and> showTryOnModal (snd (updateListings env c n s)) = showTryOnModal s
 \<and> tryOnProduct (snd (updateListings env c n s)) = tryOnProduct s
 \<and> isGeneratingTryOn (snd (updateListings env c n s)) = isGeneratingTryOn s
 \<and> tryOnResult (snd (updateListings env c n s)) = tryOnResult s
 \<and> activeContact (snd (updateListings env c n s)) = activeContact s
 \<and> console (snd (updateListings env c n s)) = console s"
  by (simp add: updateListings_def and_then_def reading_def returns_def split: sum.splits)


lemma handleParsedResult_products:
  "get_prop r ''products'' = Inr p \<Longrightarrow> truthy p \<Longrightarrow>
   handleParsedResult env c r s
     = updateListings env c p (s\<lparr>console := console s @ [Log ''PARSED RESULT:'' [r]]\<rparr>)"
  by (simp add: handleParsedResult_def and_then_def reading_def console_log_def)




text \<open>
  C9, as stated, fails: the handler tests the truth of \<^verbatim>\<open>result.products\<close>, not its
  presence. A result with \<^verbatim>\<open>products: null\<close> and a \<^verbatim>\<open>favorite_id\<close> goes on to the
  favourites and toggles one.
\<close>

theorem falsy_products_counterexample:
  "get_prop null_products_payload ''products'' = Inr Null
   \<and> favorites initial_state = []
   \<and> favorites (snd (onReceivedExtensionMiddleTierToolResponse
        (env_parsing ''wishlist'' null_products_payload) initial_state
        (frame_with ''manage_wishlist'' ''wishlist'') initial_state)) = [''CLO001'']"
  by (simp add: env_parsing_def frame_with_def null_products_payload_def initial_state_def
      onReceivedExtensionMiddleTierToolResponse_def handleToolResponse_def handleParsedResult_def
      handleAction_def handleNavigation_def handleFavorites_def toggleFavorite_def toggle_def
      and_then_def reading_def console_log_def returns_def)

text \<open>
  C9, amended. If the \<^verbatim>\<open>products\<close> field of a parsed tool result is truthy (any array,
  the empty one too), the handler does with it what \<^verbatim>\<open>updateListings\<close> does and nothing
  else: whatever \<^verbatim>\<open>id\<close>, \<^verbatim>\<open>action\<close>, \<^verbatim>\<open>navigate_to\<close> or \<^verbatim>\<open>favorite_id\<close> the result also
  holds is ignored, and the cart, the favourites, the active contact, the try-on state and
  the page are unchanged. This holds whatever render captured the handler.
\<close>

theorem products_returns_early:
  "JSON_parse env (tool_result m) = Some r \<Longrightarrow> get_prop r ''products'' = Inr p \<Longrightarrow> truthy p \<Longrightarrow>
     onReceivedExtensionMiddleTierToolResponse env c m s
       = updateListings env c p
           (s\<lparr>console := console s @
                [Log ''Voice: Tool response received:'' [Str (tool_name m)],
                 Log ''TOOL RESPONSE:'' [Str (tool_name m)],
                 Log ''PARSED RESULT:'' [r]]\<rparr>)
   \<and> cartItems (snd (onReceivedExtensionMiddleTierToolResponse env c m s)) = cartItems s
   \<and> favorites (snd (onReceivedExtensionMiddleTierToolResponse env c m s)) = favorites s
   \<and> activeContact (snd (onReceivedExtensionMiddleTierToolResponse env c m s)) = activeContact s
   \<and> showTryOnModal (snd (onReceivedExtensionMiddleTierToolResponse env c m s)) = showTryOnModal s
   \<and> tryOnProduct (snd (onReceivedExtensionMiddleTierToolResponse env c m s)) = tryOnProduct s
   \<and> isGeneratingTryOn (snd (onReceivedExtensionMiddleTierToolResponse env c m s))
       = isGeneratingTryOn s
   \<and> tryOnResult (snd (onReceivedExtensionMiddleTierToolResponse env c m s)) = tryOnResult s
   \<and> page (snd (onReceivedExtensionMiddleTierToolResponse env c m s)) = page s"
  by (simp add: onReceived_parsed handleParsedResult_products updateListings_frame)

theorem products_returns_early_witness:
  "JSON_parse (env_parsing ''found'' (Obj (fmap_of_list
        [(''products'', Arr []), (''favorite_id'', Str ''CLO001''),
         (''action'', Str ''add_to_cart''), (''product_id'', Str ''CLO002'')])))
     (tool_result (frame_with ''search'' ''found''))
     = Some (Obj (fmap_of_list
        [(''products'', Arr []), (''favorite_id'', Str ''CLO001''),
         (''action'', Str ''add_to_cart''), (''product_id'', Str ''CLO002'')]))
   \<and> truthy (Arr [])
   \<and> favorites (snd (onReceivedExtensionMiddleTierToolResponse
        (env_parsing ''found'' (Obj (fmap_of_list
          [(''products'', Arr []), (''favorite_id'', Str ''CLO001''),
           (''action'', Str ''add_to_cart''), (''product_id'', Str ''CLO002'')])))
        initial_state (frame_with ''search'' ''found'') initial_state)) = []
   \<and> cartItems (snd (onReceivedExtensionMiddleTierToolResponse
        (env_parsing ''found'' (Obj (fmap_of_list
          [(''products'', Arr []), (''favorite_id'', Str ''CLO001''),
           (''action'', Str ''add_to_cart''), (''product_id'', Str ''CLO002'')])))
        initial_state (frame_with ''search'' ''found'') initial_state)) = []"
  using products_returns_early [of "env_parsing ''found'' (Obj (fmap_of_list
          [(''products'', Arr []), (''favorite_id'', Str ''CLO001''),
           (''action'', Str ''add_to_cart''), (''product_id'', Str ''CLO002'')]))"
      "frame_with ''search'' ''found''"
      "Obj (fmap_of_list
          [(''products'', Arr []), (''favorite_id'', Str ''CLO001''),
           (''action'', Str ''add_to_cart''), (''product_id'', Str ''CLO002'')])"
      "Arr []" initial_state initial_state]
  by (simp add: env_parsing_def frame_with_def initial_state_def updateListings_frame)

text \<open>The result no branch takes.\<close>

lemma handleParsedResult_unknown:
  assumes "get_prop r ''products'' = Inr p" "\<not> truthy p"
    and "get_prop r ''id'' = Inr i" "\<not> is_string i"
    and "get_prop r ''action'' = Inr a" "a \<notin> set recognized_actions"
    and "get_prop r ''navigate_to'' = Inr n" "\<not> is_string n"
    and "get_prop r ''favorite_id'' = Inr f" "\<not> is_string f"
  shows "handleParsedResult env c r s
     = (Returned, s\<lparr>console := console s @
           [Log ''PARSED RESULT:'' [r], Log ''Unknown tool response action:'' [a]]\<rparr>)"
proof -
  have n: "(case n of Str d \<Rightarrow> navigateTo d | other \<Rightarrow> returns) = returns"
    using assms(8) by (cases n) simp_all
  have f: "(case f of
              Str l \<Rightarrow>
                and_then (console_log ''FAVORITES ACTION: Toggling favorite for'' [Str l])
                  (toggleFavorite l)
            | other \<Rightarrow> returns) = returns"
    using assms(10) by (cases f) simp_all
  show ?thesis
    using assms(1-7,9)
    by (simp add: handleParsedResult_def handleAction_def handleNavigation_def
          handleFavorites_def recognized_actions_def n f
          and_then_def reading_def console_log_def returns_def)
qed

lemma App_handleParsedResult_unknown:
  assumes "get_prop r ''products'' = Inr p" "\<not> truthy p"
    and "get_prop r ''id'' = Inr i" "\<not> is_string i"
    and "get_prop r ''action'' = Inr a" "a \<notin> set recognized_actions"
    and "get_prop r ''navigate_to'' = Inr n" "\<not> is_string n"
    and "get_prop r ''favorite_id'' = Inr f" "\<not> is_string f"
  shows "App_handleParsedResult env c r s
     = (Returned, s\<lparr>console := console s @ [Log ''PARSED RESULT:'' [r]]\<rparr>)"
  using assms
  by (simp add: App_handleParsedResult_def recognized_actions_def
        and_then_def reading_def console_log_def returns_def)

text \<open>
  C6, as stated, fails: a payload that parses to null has none of the five fields, and the
  handler does not drop it: reading \<^verbatim>\<open>result.products\<close> (in \<^verbatim>\<open>App.tsx\<close>,
  \<^verbatim>\<open>result.action\<close>) throws a TypeError.
\<close>

theorem null_payload_counterexample:
  "JSON_parse (env_parsing ''null'' Null) (tool_result (frame_with ''search'' ''null''))
     = Some Null
   \<and> fst (onReceivedExtensionMiddleTierToolResponse (env_parsing ''null'' Null) initial_state
          (frame_with ''search'' ''null'') initial_state) = Threw TypeError
   \<and> fst (App_onReceivedExtensionMiddleTierToolResponse (env_parsing ''null'' Null)
          initial_state (frame_with ''search'' ''null'') initial_state) = Threw TypeError"
  by (simp add: env_parsing_def frame_with_def
      onReceivedExtensionMiddleTierToolResponse_def handleToolResponse_def handleParsedResult_def
      App_onReceivedExtensionMiddleTierToolResponse_def App_handleParsedResult_def
      and_then_def reading_def console_log_def)

text \<open>
  C6, amended. For every tool result whose parsed payload is not null (each of the five
  fields can be read) and has no \<^verbatim>\<open>products\<close> (or a falsy one), no string \<^verbatim>\<open>id\<close>, no
  recognized \<^verbatim>\<open>action\<close>, no string \<^verbatim>\<open>navigate_to\<close> and no string \<^verbatim>\<open>favorite_id\<close>, the
  handler returns, having written to the console and changed nothing else: the listings,
  the highlighted product, the cart, the favourites and the page are as before, whatever
  render captured the handler. \<^verbatim>\<open>handleToolResponse\<close> logs the unknown action; the handler
  of \<^verbatim>\<open>App.tsx\<close> logs the result.
\<close>

theorem unknown_result_dropped:
  assumes "JSON_parse env (tool_result m) = Some r"
    and "get_prop r ''products'' = Inr p" "\<not> truthy p"
    and "get_prop r ''id'' = Inr i" "\<not> is_string i"
    and "get_prop r ''action'' = Inr a" "a \<notin> set recognized_actions"
    and "get_prop r ''navigate_to'' = Inr n" "\<not> is_string n"
    and "get_prop r ''favorite_id'' = Inr f" "\<not> is_string f"
  shows "r \<noteq> Null
       \<and> onReceivedExtensionMiddleTierToolResponse env c m s
           = (Returned, s\<lparr>console := console s @
                [Log ''Voice: Tool response received:'' [Str (tool_name m)],
                 Log ''TOOL RESPONSE:'' [Str (tool_name m)],
                 Log ''PARSED RESULT:'' [r],
                 Log ''Unknown tool response action:'' [a]]\<rparr>)
       \<and> App_onReceivedExtensionMiddleTierToolResponse env c m s
           = (Returned, s\<lparr>console := console s @
                [Log ''TOOL RESPONSE:'' [Str (tool_name m)], Log ''PARSED RESULT:'' [r]]\<rparr>)"
proof -
  have "r \<noteq> Null" using assms(2) by auto
  then show ?thesis
    using handleParsedResult_unknown [OF assms(2-11)]
      App_handleParsedResult_unknown [OF assms(2-11)]
    by (simp add: onReceived_parsed [OF assms(1)] App_onReceived_parsed [OF assms(1)])
qed

theorem unknown_result_dropped_witness:
  "JSON_parse (env_parsing ''unknown'' unknown_payload)
       (tool_result (frame_with ''dance'' ''unknown'')) = Some unknown_payload
   \<and> get_prop unknown_payload ''products'' = Inr Undefined
   \<and> get_prop unknown_payload ''id'' = Inr (Num 7)
   \<and> get_prop unknown_payload ''action'' = Inr (Str ''dance'')
   \<and> Str ''dance'' \<notin> set recognized_actions
   \<and> onReceivedExtensionMiddleTierToolResponse (env_parsing ''unknown'' unknown_payload)
        initial_state (frame_with ''dance'' ''unknown'') initial_state
       = (Returned, initial_state\<lparr>console :=
            [Log ''Voice: Tool response received:'' [Str ''dance''],
             Log ''TOOL RESPONSE:'' [Str ''dance''],
             Log ''PARSED RESULT:'' [unknown_payload],
             Log ''Unknown tool response action:'' [Str ''dance'']]\<rparr>)"
  using unknown_result_dropped [of "env_parsing ''unknown'' unknown_payload"
      "frame_with ''dance'' ''unknown''" unknown_payload Undefined "Num 7" "Str ''dance''"
      Undefined Undefined initial_state initial_state]
  by (simp add: env_parsing_def frame_with_def unknown_payload_def recognized_actions_def
        initial_state_def)


section \<open>The cart\<close>

lemma js_includes_self: "is_primitive p \<Longrightarrow> js_includes (xs @ [p]) p"
  by (simp add: js_includes_def strict_eq_def)

lemma handleNavigation_cart:
  "get_prop r ''navigate_to'' = Inr n \<Longrightarrow>
     fst (handleNavigation r s) = Returned
   \<and> cartItems (snd (handleNavigation r s)) = cartItems s"
  by (cases n) (simp_all add: handleNavigation_def reading_def navigateTo_def and_then_def
        console_log_def returns_def)

lemma handleFavorites_cart: "cartItems (snd (handleFavorites r s)) = cartItems s"
  by (simp add: handleFavorites_def reading_def toggleFavorite_def and_then_def
        console_log_def returns_def split: sum.splits jsval.splits)

lemma tail_cart:
  "get_prop r ''navigate_to'' = Inr n \<Longrightarrow>
     cartItems (snd (and_then (handleNavigation r) (handleFavorites r) s)) = cartItems s"
  using handleNavigation_cart [of r n s]
  by (simp add: and_then_returned handleFavorites_cart)

lemma handleAction_add_to_cart:
  "get_prop r ''action'' = Inr (Str ''add_to_cart'') \<Longrightarrow> get_prop r ''product_id'' = Inr p \<Longrightarrow>
     fst (handleAction env c r s) = Returned
   \<and> cartItems (snd (handleAction env c r s))
        = (if js_includes (cartItems c) p then cartItems s else cartItems s @ [p])"
  by (simp add: handleAction_def handleAddToCart_def and_then_def reading_def console_log_def
        returns_def)

lemma cart_after_add_to_cart:
  assumes "get_prop r ''products'' = Inr pr" "\<not> truthy pr"
    and "get_prop r ''id'' = Inr i" "\<not> is_string i"
    and "get_prop r ''action'' = Inr (Str ''add_to_cart'')"
    and "get_prop r ''product_id'' = Inr p"
  shows "cartItems (snd (handleParsedResult env c r s))
           = (if js_includes (cartItems c) p then cartItems s else cartItems s @ [p])"
proof -
  obtain n where n: "get_prop r ''navigate_to'' = Inr n"
    using assms(1) by (cases r) simp_all
  let ?s0 = "s\<lparr>console := console s @ [Log ''PARSED RESULT:'' [r]]\<rparr>"
  have body: "handleParsedResult env c r s
      = and_then (handleAction env c r) (and_then (handleNavigation r) (handleFavorites r)) ?s0"
    using assms(1-4)
    by (simp add: handleParsedResult_def and_then_def reading_def console_log_def)
  have act: "fst (handleAction env c r ?s0) = Returned"
    and cart: "cartItems (snd (handleAction env c r ?s0))
        = (if js_includes (cartItems c) p then cartItems s else cartItems s @ [p])"
    using handleAction_add_to_cart [OF assms(5,6), of env c ?s0] by simp_all
  have step:
    "and_then (handleAction env c r) (and_then (handleNavigation r) (handleFavorites r)) ?s0
      = and_then (handleNavigation r) (handleFavorites r) (snd (handleAction env c r ?s0))"
    using act by (rule and_then_returned)
  show ?thesis
    unfolding body step
    using tail_cart [OF n] cart by simp
qed

text \<open>
  Two deliveries of one \<^verbatim>\<open>add_to_cart\<close> result leave the cart as one does when each is
  handled by a render that shows the cart it finds.
\<close>

lemma add_to_cart_twice_current_render:
  assumes "JSON_parse env (tool_result m) = Some r" "JSON_parse env' (tool_result m) = Some r"
    and "get_prop r ''products'' = Inr pr" "\<not> truthy pr"
    and "get_prop r ''id'' = Inr i" "\<not> is_string i"
    and "get_prop r ''action'' = Inr (Str ''add_to_cart'')"
    and "get_prop r ''product_id'' = Inr p" "is_primitive p"
    and "cartItems c = cartItems s"
    and "cartItems c' = cartItems (snd (onReceivedExtensionMiddleTierToolResponse env c m s))"
  shows "cartItems (snd (onReceivedExtensionMiddleTierToolResponse env' c' m
            (snd (onReceivedExtensionMiddleTierToolResponse env c m s))))
           = cartItems (snd (onReceivedExtensionMiddleTierToolResponse env c m s))"
proof -
  let ?s1 = "snd (onReceivedExtensionMiddleTierToolResponse env c m s)"
  have one: "cartItems ?s1
      = (if js_includes (cartItems s) p then cartItems s else cartItems s @ [p])"
    using cart_after_add_to_cart [OF assms(3-8), of env c] assms(10)
    by (simp add: onReceived_parsed [OF assms(1)])
  have found: "js_includes (cartItems c') p"
    using one js_includes_self [OF assms(9)] assms(11) by simp
  show ?thesis
    using cart_after_add_to_cart [OF assms(3-8), of env' c'] found
    by (simp add: onReceived_parsed [OF assms(2)])
qed

text \<open>
  C5. Delivering the same \<^verbatim>\<open>add_to_cart\<close> result twice must leave the cart as one delivery
  does. The code fails this when both deliveries are handled by the handlers of one render:
  \<^verbatim>\<open>handleAddToCart\<close> tests the cart that render captured, which does not hold the id
  either time, and appends to the current cart both times. From the empty cart, one
  delivery gives one entry and two deliveries give the same entry twice, in
  \<^verbatim>\<open>useShoppingFeatures\<close> and in \<^verbatim>\<open>App.tsx\<close>.
\<close>

theorem add_to_cart_same_render_twice:
  "cartItems (snd (onReceivedExtensionMiddleTierToolResponse (env_parsing ''cart'' cart_payload)
      initial_state (frame_with ''add_to_cart'' ''cart'') initial_state)) = [Str ''CLO002'']
   \<and> cartItems (snd (onReceivedExtensionMiddleTierToolResponse
        (env_parsing ''cart'' cart_payload) initial_state (frame_with ''add_to_cart'' ''cart'')
        (snd (onReceivedExtensionMiddleTierToolResponse (env_parsing ''cart'' cart_payload)
           initial_state (frame_with ''add_to_cart'' ''cart'') initial_state))))
       = [Str ''CLO002'', Str ''CLO002'']
   \<and> cartItems (snd (App_onReceivedExtensionMiddleTierToolResponse
        (env_parsing ''cart'' cart_payload) initial_state (frame_with ''add_to_cart'' ''cart'')
        (snd (App_onReceivedExtensionMiddleTierToolResponse (env_parsing ''cart'' cart_payload)
           initial_state (frame_with ''add_to_cart'' ''cart'') initial_state))))
       = [Str ''CLO002'', Str ''CLO002'']"
  by (simp add: env_parsing_def frame_with_def cart_payload_def initial_state_def
      onReceivedExtensionMiddleTierToolResponse_def handleToolResponse_def handleParsedResult_def
      App_onReceivedExtensionMiddleTierToolResponse_def App_handleParsedResult_def
      App_handleAddToCart_def handleAction_def handleAddToCart_def handleNavigation_def
      handleFavorites_def js_includes_def
      and_then_def reading_def console_log_def returns_def)

section \<open>The try-on\<close>

text \<open>
  C4, as stated, fails: when the call of the backend is rejected, or answers with an error
  status, \<^verbatim>\<open>handleGenerateTryOn\<close> returns normally and the try-on result is the placeholder
  image, in the shape of a generated one. The state holds no error.
\<close>

theorem failed_call_counterexample:
  "fst (handleGenerateTryOn (env_parsing [] Null) FetchRejected ''CLO001'' ''aGVsbG8=''
          initial_state) = Returned
   \<and> tryOnResult (snd (handleGenerateTryOn (env_parsing [] Null) FetchRejected ''CLO001''
        ''aGVsbG8='' initial_state))
       = Some \<lparr>imageUrl = Str ''/api/placeholder/400/600'', timestamp = 0\<rparr>
   \<and> tryOnResult (snd (handleGenerateTryOn (env_parsing [] Null)
        (Fetched \<lparr>status = 500, json_body = None\<rparr>) ''CLO001'' ''aGVsbG8='' initial_state))
       = Some \<lparr>imageUrl = Str ''/api/placeholder/400/600'', timestamp = 0\<rparr>"
  by (simp add: handleGenerateTryOn_def direct_call_def env_parsing_def initial_state_def
        response_ok_def simulation_def setTryOnResult_def and_then_def catching_def
        finally_do_def console_log_def throws_def)

text \<open>
  C4, amended. When the call of the backend fails (the request is rejected, the status is
  not a success, or the body cannot be read), \<^verbatim>\<open>handleGenerateTryOn\<close> returns normally:
  the try-on result is set to the placeholder image \<^verbatim>\<open>/api/placeholder/400/600\<close>, the
  generating flag is cleared, and the failure is written to the console only. The same
  holds in \<^verbatim>\<open>App.tsx\<close>.
\<close>

theorem failed_call_shows_placeholder:
  assumes "call_failed fetched"
  shows "fst (handleGenerateTryOn env fetched productId personImageBase64 s) = Returned
   \<and> quiet (snd (handleGenerateTryOn env fetched productId personImageBase64 s))
       = quiet (s\<lparr>isGeneratingTryOn := False,
                  tryOnResult := Some \<lparr>imageUrl = Str ''/api/placeholder/400/600'',
                                       timestamp = Date_now env\<rparr>\<rparr>)
   \<and> fst (App_handleGenerateTryOn env fetched productId personImageBase64 s) = Returned
   \<and> quiet (snd (App_handleGenerateTryOn env fetched productId personImageBase64 s))
       = quiet (s\<lparr>isGeneratingTryOn := False,
                  tryOnResult := Some \<lparr>imageUrl = Str ''/api/placeholder/400/600'',
                                       timestamp = Date_now env\<rparr>\<rparr>)"
proof (cases fetched)
  case FetchRejected
  then show ?thesis
    by (simp add: handleGenerateTryOn_def App_handleGenerateTryOn_def direct_call_def
          App_direct_call_def simulation_def setTryOnResult_def and_then_def catching_def
          finally_do_def console_log_def throws_def quiet_def)
next
  case (Fetched response)
  with assms have "\<not> response_ok response \<or> json_body response = None" by simp
  with Fetched show ?thesis
    by (auto simp: handleGenerateTryOn_def App_handleGenerateTryOn_def direct_call_def
          App_direct_call_def simulation_def setTryOnResult_def and_then_def catching_def
          finally_do_def console_log_def throws_def quiet_def)
qed

theorem failed_call_shows_placeholder_witness:
  "call_failed (Fetched \<lparr>status = 503, json_body = None\<rparr>)
   \<and> tryOnResult (snd (handleGenerateTryOn (env_parsing [] Null)
         (Fetched \<lparr>status = 503, json_body = None\<rparr>) ''CLO001'' ''aGVsbG8='' initial_state))
       = Some \<lparr>imageUrl = Str ''/api/placeholder/400/600'', timestamp = 0\<rparr>"
proof -
  have "tryOnResult (quiet (snd (handleGenerateTryOn (env_parsing [] Null)
         (Fetched \<lparr>status = 503, json_body = None\<rparr>) ''CLO001'' ''aGVsbG8='' initial_state)))
       = Some \<lparr>imageUrl = Str ''/api/placeholder/400/600'', timestamp = 0\<rparr>"
    using failed_call_shows_placeholder [of "Fetched \<lparr>status = 503, json_body = None\<rparr>"
      "env_parsing [] Null" "''CLO001''" "''aGVsbG8=''" initial_state]
    by (simp add: response_ok_def quiet_def env_parsing_def)
  then show ?thesis by (simp add: quiet_def response_ok_def)
qed

end
